theory Spec2Isabelle
  imports Complex_Main "HOL-Library.Word"
begin

section \<open>The joint controller system (JointController.cc)\<close>

text \<open>
  A shallow embedding of \<^verbatim>\<open>src/systems/joint_controller/JointController.cc\<close>:
  the private data of the system as a record, \<^verbatim>\<open>Configure\<close>, \<^verbatim>\<open>PreUpdate\<close> and
  \<^verbatim>\<open>OnCmdVel\<close> as functions that take the data and return it updated. The
  entity-component manager, the SDF element and the PID controller are used by the file but
  declared elsewhere; the parts the file touches are modelled below, each marked as such.
  A C++ \<^verbatim>\<open>double\<close> is read as a real number.
\<close>

subsection \<open>Entities and the entity-component manager\<close>

text \<open>\<^verbatim>\<open>Entity\<close> is a 64-bit unsigned integer and \<^verbatim>\<open>kNullEntity\<close> is 0.\<close>

type_synonym Entity = "64 word"

definition kNullEntity :: Entity where
  "kNullEntity = 0"

text \<open>
  The three component types the system touches. The data of each is a
  \<^verbatim>\<open>std::vector<double>\<close>, one element per joint axis: the source reads it with
  \<^verbatim>\<open>Data().at(0)\<close>, writes it with \<^verbatim>\<open>Data()[0]\<close> and builds it with \<^verbatim>\<open>{force}\<close>.
\<close>

datatype ComponentType = JointVelocity | JointForceCmd | JointVelocityCmd

text \<open>
  Modelled from the spec: the class EntityComponentManager and the class Model are not among
  the source files. The store holds, for each component type, a partial map from entities
  to component data; it knows which entities exist (a creation on an entity it does not
  know is rejected), which entities carry a model component, the name of an entity, and
  which joint a model has under a given name (\<^verbatim>\<open>kNullEntity\<close> when there is none).
\<close>

record EntityComponentManager =
  HasEntity :: "Entity \<Rightarrow> bool"
  HasModelComponent :: "Entity \<Rightarrow> bool"
  NameOf :: "Entity \<Rightarrow> string"
  JointOf :: "Entity \<Rightarrow> string \<Rightarrow> Entity"
  components :: "ComponentType \<Rightarrow> Entity \<rightharpoonup> real list"

text \<open>
  Modelled from the spec: \<^verbatim>\<open>_ecm.Component<T>(entity)\<close>, a pointer to the component or
  \<^verbatim>\<open>nullptr\<close> (here \<open>None\<close>).
\<close>

definition Component :: "EntityComponentManager \<Rightarrow> ComponentType \<Rightarrow> Entity \<Rightarrow> real list option" where
  "Component ecm T entity = components ecm T entity"

text \<open>
  Modelled from the spec: \<^verbatim>\<open>_ecm.CreateComponent(entity, T(data))\<close>. The store attaches the
  component, or rejects the creation and stays as it is.
\<close>

definition CreateComponent ::
  "EntityComponentManager \<Rightarrow> Entity \<Rightarrow> ComponentType \<Rightarrow> real list \<Rightarrow> EntityComponentManager" where
  "CreateComponent ecm entity T data =
     (if HasEntity ecm entity
      then ecm\<lparr>components := (components ecm)(T := (components ecm T)(entity \<mapsto> data))\<rparr>
      else ecm)"

text \<open>
  A write through the pointer that \<^verbatim>\<open>Component<T>\<close> returned: \<^verbatim>\<open>comp->Data() = data\<close>.
\<close>

definition SetData ::
  "EntityComponentManager \<Rightarrow> ComponentType \<Rightarrow> Entity \<Rightarrow> real list \<Rightarrow> EntityComponentManager" where
  "SetData ecm T entity data =
     ecm\<lparr>components := (components ecm)(T := (components ecm T)(entity \<mapsto> data))\<rparr>"

text \<open>
  Modelled from the spec: \<^verbatim>\<open>Model::Valid\<close>, \<^verbatim>\<open>Model::Name\<close> and \<^verbatim>\<open>Model::JointByName\<close>.
  The lookup is by name: it answers with the joint the store has for the model under the
  name only if that joint bears the name, and with \<^verbatim>\<open>kNullEntity\<close> otherwise.
\<close>

definition Model_Valid :: "EntityComponentManager \<Rightarrow> Entity \<Rightarrow> bool" where
  "Model_Valid ecm m = HasModelComponent ecm m"

definition Model_Name :: "EntityComponentManager \<Rightarrow> Entity \<Rightarrow> string" where
  "Model_Name ecm m = NameOf ecm m"

definition Model_JointByName :: "EntityComponentManager \<Rightarrow> Entity \<Rightarrow> string \<Rightarrow> Entity" where
  "Model_JointByName ecm m name =
     (let joint = JointOf ecm m name
      in if joint \<noteq> kNullEntity \<and> NameOf ecm joint = name then joint else kNullEntity)"

subsection \<open>The PID controller\<close>

text \<open>
  Modelled from the spec: the class \<^verbatim>\<open>math::PID\<close> is not among the source files. Its state,
  after section 4.4 of the specification: the gains, the clamps and the offset that
  \<^verbatim>\<open>Init\<close> receives, the integral accumulator, the previous error and the flag of the
  first update.
\<close>

record PID =
  pGain :: real
  iGain :: real
  dGain :: real
  iMax :: real
  iMin :: real
  cmdMax :: real
  cmdMin :: real
  cmdOffset :: real
  integral :: real
  previousError :: real
  firstUpdate :: bool

text \<open>
  Modelled from the spec: \<^verbatim>\<open>PID::Init(p, i, d, iMax, iMin, cmdMax, cmdMin, cmdOffset)\<close>, with
  the accumulator and the previous error at 0 and the first update still to come.
\<close>

definition PID_Init :: "real \<Rightarrow> real \<Rightarrow> real \<Rightarrow> real \<Rightarrow> real \<Rightarrow> real \<Rightarrow> real \<Rightarrow> real \<Rightarrow> PID" where
  "PID_Init p i d imax imin cmax cmin offset =
     \<lparr>pGain = p, iGain = i, dGain = d, iMax = imax, iMin = imin,
      cmdMax = cmax, cmdMin = cmin, cmdOffset = offset,
      integral = 0, previousError = 0, firstUpdate = True\<rparr>"

text \<open>Modelled from the spec: clamping a value into \<open>[lo, hi]\<close>.\<close>

definition clamp :: "real \<Rightarrow> real \<Rightarrow> real \<Rightarrow> real" where
  "clamp v lo hi = max lo (min v hi)"

text \<open>
  Modelled from the spec: \<^verbatim>\<open>PID::Update(error, dt)\<close>, step by step as section 4.4 gives
  it. It returns the output and the controller with its new state.
\<close>

definition PID_Update :: "PID \<Rightarrow> real \<Rightarrow> real \<Rightarrow> real \<times> PID" where
  "PID_Update pid error dt =
     (let pTerm = pGain pid * error;
          acc = (if dt > 0 then clamp (integral pid + error * dt) (iMin pid) (iMax pid)
                 else integral pid);
          dTerm = (if firstUpdate pid \<or> dt \<le> 0 then 0
                   else dGain pid * (error - previousError pid) / dt);
          raw = pTerm + iGain pid * acc + dTerm + cmdOffset pid
      in (clamp raw (cmdMin pid) (cmdMax pid),
          pid\<lparr>integral := acc, previousError := error, firstUpdate := False\<rparr>))"


text \<open>
  \<^verbatim>\<open>_info.dt\<close> is a \<^verbatim>\<open>steady_clock::duration\<close>, a signed count of nanoseconds; the PID
  controller takes it in seconds.
\<close>

definition PID_Update_ns :: "PID \<Rightarrow> real \<Rightarrow> int \<Rightarrow> real \<times> PID" where
  "PID_Update_ns pid error dt = PID_Update pid error (real_of_int dt / 1000000000)"

subsection \<open>The private data of the system\<close>

text \<open>
  \<^verbatim>\<open>class JointControllerPrivate\<close>. The transport node is kept as the topic it is
  subscribed to, if any; the mutex has no counterpart in a sequential model.
\<close>

record JointControllerPrivate =
  jointEntity :: Entity
  jointName :: string
  jointVelCmd :: real
  model :: Entity
  useForceCommands :: bool
  velPid :: PID
  node :: "string option"

text \<open>
  The constructor: \<^verbatim>\<open>dataPtr(std::make_unique<JointControllerPrivate>())\<close>. The class has no
  constructor of its own, and \<^verbatim>\<open>make_unique<T>()\<close> value-initialises: the members without
  an initialiser are zeroed first (\<^verbatim>\<open>jointEntity\<close>, which \<^verbatim>\<open>PreUpdate\<close> compares with
  \<^verbatim>\<open>kNullEntity\<close>, and \<^verbatim>\<open>jointVelCmd\<close>), the others take their initialiser, and
  \<^verbatim>\<open>velPid\<close> is the default-constructed controller, here a parameter.
\<close>

definition JointController :: "PID \<Rightarrow> JointControllerPrivate" where
  "JointController pid0 =
     \<lparr>jointEntity = 0, jointName = [], jointVelCmd = 0, model = kNullEntity,
      useForceCommands = False, velPid = pid0, node = None\<rparr>"

subsection \<open>Configure\<close>

text \<open>
  The SDF element of the plugin: each child element is present with a value or absent.
\<close>

record sdf_Element =
  joint_name :: "string option"
  initial_velocity :: "real option"
  use_force_commands :: "bool option"
  p_gain :: "real option"
  i_gain :: "real option"
  d_gain :: "real option"
  i_max :: "real option"
  i_min :: "real option"
  cmd_max :: "real option"
  cmd_min :: "real option"
  cmd_offset :: "real option"
  topic :: "string option"

text \<open>
  \<^verbatim>\<open>_sdf->Get<T>(key, default).first\<close>: the value of the element, or the default when the
  element is absent. \<^verbatim>\<open>_sdf->Get<std::string>(key)\<close> gives the empty string when the
  element is absent.
\<close>

definition Get :: "'a option \<Rightarrow> 'a \<Rightarrow> 'a" where
  "Get elem dflt = (case elem of Some v \<Rightarrow> v | None \<Rightarrow> dflt)"

definition HasElement :: "'a option \<Rightarrow> bool" where
  "HasElement elem = (elem \<noteq> None)"

text \<open>The console: which stream each message goes to.\<close>

datatype log = ignerr | ignwarn | ignmsg | igndbg

text \<open>
  \<^verbatim>\<open>JointController::Configure\<close>. It returns the messages written and the private data.
\<close>

definition Configure ::
  "Entity \<Rightarrow> sdf_Element \<Rightarrow> EntityComponentManager \<Rightarrow> JointControllerPrivate
     \<Rightarrow> log list \<times> JointControllerPrivate" where
  "Configure entity sdf ecm this0 =
     (let this1 = this0\<lparr>model := entity\<rparr> in
      if \<not> Model_Valid ecm (model this1) then ([ignerr], this1)
      else
        let this2 = this1\<lparr>jointName := Get (joint_name sdf) []\<rparr> in
        if jointName this2 = [] then ([ignerr], this2)
        else
          let (log3, this3) =
                (if HasElement (initial_velocity sdf)
                 then ([ignmsg], this2\<lparr>jointVelCmd := Get (initial_velocity sdf) 0\<rparr>)
                 else ([], this2));
              (log4, this4) =
                (if HasElement (use_force_commands sdf) \<and> Get (use_force_commands sdf) False
                 then
                   (let p = Get (p_gain sdf) 1.0;
                        i = Get (i_gain sdf) 0.0;
                        d = Get (d_gain sdf) 0.0;
                        iMax = Get (i_max sdf) 1.0;
                        iMin = Get (i_min sdf) (- 1.0);
                        cmdMax = Get (cmd_max sdf) 1000.0;
                        cmdMin = Get (cmd_min sdf) (- 1000.0);
                        cmdOffset = Get (cmd_offset sdf) 0.0
                    in (replicate 9 igndbg,
                        this3\<lparr>useForceCommands := True,
                              velPid := PID_Init p i d iMax iMin cmdMax cmdMin cmdOffset\<rparr>))
                 else ([igndbg], this3));
              topic0 = ''/model/'' @ Model_Name ecm (model this4) @ ''/joint/''
                         @ jointName this4 @ ''/cmd_vel'';
              topic1 = (if HasElement (topic sdf) then Get (topic sdf) [] else topic0)
          in (log3 @ log4 @ [ignmsg], this4\<lparr>node := Some topic1\<rparr>))"

subsection \<open>OnCmdVel\<close>

text \<open>\<^verbatim>\<open>JointControllerPrivate::OnCmdVel\<close>: the message replaces the commanded velocity.\<close>

definition OnCmdVel :: "real \<Rightarrow> JointControllerPrivate \<Rightarrow> JointControllerPrivate" where
  "OnCmdVel msg this0 = this0\<lparr>jointVelCmd := msg\<rparr>"

subsection \<open>PreUpdate\<close>

text \<open>\<^verbatim>\<open>UpdateInfo\<close>: the fields \<^verbatim>\<open>PreUpdate\<close> reads.\<close>

record UpdateInfo =
  dt :: int
  paused :: bool

text \<open>
  What ends a step other than a return: \<^verbatim>\<open>std::out_of_range\<close>, thrown by \<^verbatim>\<open>at(0)\<close> on
  an empty vector, and the undefined behaviour of \<^verbatim>\<open>operator[]\<close> on an empty vector.
\<close>

datatype error = out_of_range | undefined_index

text \<open>
  \<^verbatim>\<open>JointController::PreUpdate\<close>. \<open>Update\<close> is \<^verbatim>\<open>math::PID::Update\<close>, a parameter: it
  takes the controller, the error and \<^verbatim>\<open>_info.dt\<close> and returns the output and the
  controller with its new state. The result is the messages written and either the error
  that ended the step or the private data and the store after it.
\<close>

definition PreUpdate ::
  "(PID \<Rightarrow> real \<Rightarrow> int \<Rightarrow> real \<times> PID) \<Rightarrow> UpdateInfo \<Rightarrow> EntityComponentManager
     \<Rightarrow> JointControllerPrivate \<Rightarrow> log list \<times> (error + JointControllerPrivate \<times> EntityComponentManager)" where
  "PreUpdate Update info ecm this0 =
     (let log1 = (if dt info < 0 then [ignwarn] else []);
          this1 = (if jointEntity this0 = kNullEntity
                   then this0\<lparr>jointEntity := Model_JointByName ecm (model this0) (jointName this0)\<rparr>
                   else this0)
      in (log1,
          if jointEntity this1 = kNullEntity then Inr (this1, ecm)
          else if paused info then Inr (this1, ecm)
          else
            let jointVelComp = Component ecm JointVelocity (jointEntity this1);
                ecm1 = (if jointVelComp = None
                        then CreateComponent ecm (jointEntity this1) JointVelocity []
                        else ecm)
            in case jointVelComp of
                 None \<Rightarrow> Inr (this1, ecm1)
               | Some jointVelData \<Rightarrow>
                 let targetVel = jointVelCmd this1 in
                 if useForceCommands this1 then
                   (case jointVelData of
                      [] \<Rightarrow> Inl out_of_range
                    | v0 # _ \<Rightarrow>
                        let err = v0 - targetVel;
                            (force, pid) = Update (velPid this1) err (dt info);
                            this2 = this1\<lparr>velPid := pid\<rparr>
                        in (case Component ecm1 JointForceCmd (jointEntity this2) of
                              None \<Rightarrow>
                                Inr (this2, CreateComponent ecm1 (jointEntity this2) JointForceCmd [force])
                            | Some [] \<Rightarrow> Inl undefined_index
                            | Some (f0 # fs) \<Rightarrow>
                                Inr (this2, SetData ecm1 JointForceCmd (jointEntity this2) (force # fs))))
                 else
                   (case Component ecm1 JointVelocityCmd (jointEntity this1) of
                      None \<Rightarrow>
                        Inr (this1, CreateComponent ecm1 (jointEntity this1) JointVelocityCmd [targetVel])
                    | Some [] \<Rightarrow> Inl undefined_index
                    | Some (c0 # cs) \<Rightarrow>
                        Inr (this1, SetData ecm1 JointVelocityCmd (jointEntity this1) (targetVel # cs)))))"

subsection \<open>The life of an instance\<close>

text \<open>
  What happens to a configured instance: the host calls \<^verbatim>\<open>PreUpdate\<close> with the store as
  the other systems left it, and the transport calls \<^verbatim>\<open>OnCmdVel\<close>.
\<close>

datatype event = Step UpdateInfo EntityComponentManager | CmdVel real

text \<open>
  The run of the events in order, up to the first error: the private data at the end and,
  for each step, the store it was given and the store it left.
\<close>

fun run ::
  "(PID \<Rightarrow> real \<Rightarrow> int \<Rightarrow> real \<times> PID) \<Rightarrow> JointControllerPrivate \<Rightarrow> event list
     \<Rightarrow> error + JointControllerPrivate \<times> (EntityComponentManager \<times> EntityComponentManager) list" where
  "run Update this0 [] = Inr (this0, [])"
| "run Update this0 (CmdVel msg # evs) = run Update (OnCmdVel msg this0) evs"
| "run Update this0 (Step info ecm # evs) =
     (case snd (PreUpdate Update info ecm this0) of
        Inl e \<Rightarrow> Inl e
      | Inr (this1, ecm1) \<Rightarrow>
          (case run Update this1 evs of
             Inl e \<Rightarrow> Inl e
           | Inr (this2, tr) \<Rightarrow> Inr (this2, (ecm, ecm1) # tr)))"

text \<open>The stores that the steps of a list of events are given, in order.\<close>

fun step_stores :: "event list \<Rightarrow> EntityComponentManager list" where
  "step_stores [] = []"
| "step_stores (Step info ecm # evs) = ecm # step_stores evs"
| "step_stores (CmdVel msg # evs) = step_stores evs"

text \<open>
  An event at which the model \<open>m\<close> has no joint whose name is empty: a step whose store
  finds none, or a command message.
\<close>

fun no_unnamed_joint :: "Entity \<Rightarrow> event \<Rightarrow> bool" where
  "no_unnamed_joint m (Step info ecm) = (Model_JointByName ecm m [] = kNullEntity)"
| "no_unnamed_joint m (CmdVel msg) = True"

text \<open>
  The store with every component cut down to its first element: what is left of a store for
  a step that looks at nothing but the first axis.
\<close>

definition first_axis :: "EntityComponentManager \<Rightarrow> EntityComponentManager" where
  "first_axis ecm =
     ecm\<lparr>components := (\<lambda>T entity. map_option (take 1) (components ecm T entity))\<rparr>"

subsection \<open>Example inputs\<close>

text \<open>
  A store with a model (entity 1, named arm) that has one joint (entity 2, named elbow),
  parametrised by the components it holds, and the same store where the joint has an empty
  name.
\<close>

definition example_ecm :: "(ComponentType \<Rightarrow> Entity \<rightharpoonup> real list) \<Rightarrow> EntityComponentManager" where
  "example_ecm comps =
     \<lparr>HasEntity = (\<lambda>e. e = 1 \<or> e = 2),
      HasModelComponent = (\<lambda>e. e = 1),
      NameOf = (\<lambda>e. if e = 1 then ''arm'' else if e = 2 then ''elbow'' else []),
      JointOf = (\<lambda>m name. if m = 1 \<and> name = ''elbow'' then 2 else kNullEntity),
      components = comps\<rparr>"

definition example_ecm_unnamed :: "(ComponentType \<Rightarrow> Entity \<rightharpoonup> real list) \<Rightarrow> EntityComponentManager" where
  "example_ecm_unnamed comps =
     (example_ecm comps)
       \<lparr>NameOf := (\<lambda>e. if e = 1 then ''arm'' else []),
        JointOf := (\<lambda>m name. if m = 1 \<and> name = [] then 2 else kNullEntity)\<rparr>"

definition no_components :: "ComponentType \<Rightarrow> Entity \<rightharpoonup> real list" where
  "no_components = (\<lambda>T. Map.empty)"

text \<open>The joint has a measured velocity of 3 on its first axis and 4 on its second.\<close>

definition velocity_components :: "ComponentType \<Rightarrow> Entity \<rightharpoonup> real list" where
  "velocity_components = no_components(JointVelocity := [2 \<mapsto> [3, 4]])"

text \<open>The joint also has a force command and a velocity command, each on two axes.\<close>

definition all_components :: "ComponentType \<Rightarrow> Entity \<rightharpoonup> real list" where
  "all_components =
     no_components(JointVelocity := [2 \<mapsto> [3, 4]], JointForceCmd := [2 \<mapsto> [7, 8]],
       JointVelocityCmd := [2 \<mapsto> [5, 6]])"

text \<open>
  A plugin element that names the joint and leaves everything else to the defaults, and so
  selects velocity mode; the same with force commands and an integral gain; and one with
  no joint name.
\<close>

definition example_sdf :: sdf_Element where
  "example_sdf =
     \<lparr>joint_name = Some ''elbow'', initial_velocity = None, use_force_commands = None,
      p_gain = None, i_gain = None, d_gain = None, i_max = None, i_min = None,
      cmd_max = None, cmd_min = None, cmd_offset = None, topic = None\<rparr>"

definition example_sdf_force :: sdf_Element where
  "example_sdf_force = example_sdf\<lparr>use_force_commands := Some True, i_gain := Some 1\<rparr>"

definition example_sdf_unnamed :: sdf_Element where
  "example_sdf_unnamed = example_sdf\<lparr>joint_name := None\<rparr>"



definition example_pid0 :: PID where
  "example_pid0 = PID_Init 0 0 0 0 0 0 0 0"

text \<open>The instances that \<^verbatim>\<open>Configure\<close> makes of these on the model of the example store.\<close>

definition example_velocity_mode :: JointControllerPrivate where
  "example_velocity_mode =
     snd (Configure 1 example_sdf (example_ecm no_components) (JointController example_pid0))"

definition example_force_mode :: JointControllerPrivate where
  "example_force_mode =
     snd (Configure 1 example_sdf_force (example_ecm no_components) (JointController example_pid0))"

definition example_unnamed :: JointControllerPrivate where
  "example_unnamed =
     snd (Configure 1 example_sdf_unnamed (example_ecm_unnamed no_components)
            (JointController example_pid0))"

text \<open>A step of one millisecond, and the same step while paused.\<close>

definition example_info :: UpdateInfo where
  "example_info = \<lparr>dt = 1000000, paused = False\<rparr>"

definition example_info_paused :: UpdateInfo where
  "example_info_paused = \<lparr>dt = 1000000, paused = True\<rparr>"

section \<open>Properties\<close>

subsection \<open>The steps of PreUpdate, case by case\<close>

text \<open>A step of an instance whose joint is already identified.\<close>

lemma PreUpdate_resolved:
  "jointEntity this0 \<noteq> kNullEntity \<Longrightarrow>
   snd (PreUpdate Update info ecm this0) =
     (if paused info then Inr (this0, ecm)
      else case Component ecm JointVelocity (jointEntity this0) of
        None \<Rightarrow> Inr (this0, CreateComponent ecm (jointEntity this0) JointVelocity [])
      | Some jointVelData \<Rightarrow>
         if useForceCommands this0 then
           (case jointVelData of
              [] \<Rightarrow> Inl out_of_range
            | v0 # _ \<Rightarrow>
               (case Component ecm JointForceCmd (jointEntity this0) of
                  None \<Rightarrow>
                    Inr (this0\<lparr>velPid := snd (Update (velPid this0) (v0 - jointVelCmd this0) (dt info))\<rparr>,
                         CreateComponent ecm (jointEntity this0) JointForceCmd
                           [fst (Update (velPid this0) (v0 - jointVelCmd this0) (dt info))])
                | Some [] \<Rightarrow> Inl undefined_index
                | Some (f0 # fs) \<Rightarrow>
                    Inr (this0\<lparr>velPid := snd (Update (velPid this0) (v0 - jointVelCmd this0) (dt info))\<rparr>,
                         SetData ecm JointForceCmd (jointEntity this0)
                           (fst (Update (velPid this0) (v0 - jointVelCmd this0) (dt info)) # fs))))
         else
           (case Component ecm JointVelocityCmd (jointEntity this0) of
              None \<Rightarrow>
                Inr (this0, CreateComponent ecm (jointEntity this0) JointVelocityCmd [jointVelCmd this0])
            | Some [] \<Rightarrow> Inl undefined_index
            | Some (c0 # cs) \<Rightarrow>
                Inr (this0, SetData ecm JointVelocityCmd (jointEntity this0) (jointVelCmd this0 # cs))))"
  by (simp add: PreUpdate_def Let_def split: option.splits list.splits prod.splits)

text \<open>
  A step of an instance whose joint is not identified yet: it looks the joint up, returns
  if there is none, and goes on as above otherwise.
\<close>

lemma PreUpdate_unresolved:
  "jointEntity this0 = kNullEntity \<Longrightarrow>
   snd (PreUpdate Update info ecm this0) =
     (if Model_JointByName ecm (model this0) (jointName this0) = kNullEntity then Inr (this0, ecm)
      else snd (PreUpdate Update info ecm
             (this0\<lparr>jointEntity := Model_JointByName ecm (model this0) (jointName this0)\<rparr>)))"
  by (simp add: PreUpdate_def Let_def split: option.splits list.splits prod.splits)

text \<open>
  Either way, a step is the step of the instance with the joint the lookup gives it.
\<close>

lemma PreUpdate_identify:
  "snd (PreUpdate Update info ecm this0) =
   snd (PreUpdate Update info ecm
     (this0\<lparr>jointEntity := (if jointEntity this0 = kNullEntity
        then Model_JointByName ecm (model this0) (jointName this0) else jointEntity this0)\<rparr>))"
proof (cases "jointEntity this0 = kNullEntity")
  case True
  show ?thesis
  proof (cases "Model_JointByName ecm (model this0) (jointName this0) = kNullEntity")
    case True
    have eq: "this0\<lparr>jointEntity := kNullEntity\<rparr> = this0"
      using \<open>jointEntity this0 = kNullEntity\<close> by (cases this0) simp
    show ?thesis
      using True \<open>jointEntity this0 = kNullEntity\<close> by (simp only: simp_thms if_True eq)
  next
    case False
    with \<open>jointEntity this0 = kNullEntity\<close> show ?thesis
      by (simp add: PreUpdate_unresolved [of this0])
  qed
next
  case False
  then show ?thesis by simp
qed

lemma PreUpdate_log:
  "fst (PreUpdate Update info ecm this0) = (if dt info < 0 then [ignwarn] else [])"
  by (simp add: PreUpdate_def Let_def)

subsection \<open>The example instances\<close>

lemma example_velocity_mode_eq:
  "example_velocity_mode =
     \<lparr>jointEntity = 0, jointName = ''elbow'', jointVelCmd = 0, model = 1,
      useForceCommands = False, velPid = example_pid0,
      node = Some ''/model/arm/joint/elbow/cmd_vel''\<rparr>"
  by (simp add: example_velocity_mode_def Configure_def JointController_def example_sdf_def
      example_ecm_def Model_Valid_def Model_Name_def Get_def HasElement_def kNullEntity_def)

lemma example_force_mode_eq:
  "example_force_mode =
     \<lparr>jointEntity = 0, jointName = ''elbow'', jointVelCmd = 0, model = 1,
      useForceCommands = True, velPid = PID_Init 1 1 0 1 (- 1) 1000 (- 1000) 0,
      node = Some ''/model/arm/joint/elbow/cmd_vel''\<rparr>"
  by (simp add: example_force_mode_def Configure_def JointController_def example_sdf_def
      example_sdf_force_def example_ecm_def Model_Valid_def Model_Name_def Get_def
      HasElement_def kNullEntity_def)

lemma example_unnamed_eq:
  "example_unnamed =
     \<lparr>jointEntity = 0, jointName = [], jointVelCmd = 0, model = 1,
      useForceCommands = False, velPid = example_pid0, node = None\<rparr>"
  by (simp add: example_unnamed_def Configure_def JointController_def example_sdf_def
      example_sdf_unnamed_def example_ecm_unnamed_def example_ecm_def Model_Valid_def
      Model_Name_def Get_def HasElement_def kNullEntity_def)

subsection \<open>What a step keeps\<close>

lemma PreUpdate_keeps:
  assumes "snd (PreUpdate Update info ecm this0) = Inr (this1, ecm1)"
  shows "useForceCommands this1 = useForceCommands this0"
    and "jointVelCmd this1 = jointVelCmd this0"
    and "model this1 = model this0"
    and "jointName this1 = jointName this0"
    and "jointEntity this0 \<noteq> kNullEntity \<Longrightarrow> jointEntity this1 = jointEntity this0"
  using assms
  by (cases "jointEntity this0 = kNullEntity";
      auto simp add: PreUpdate_resolved PreUpdate_unresolved
        split: if_splits option.splits list.splits)+

lemma PreUpdate_velocity_mode_frame:
  assumes "snd (PreUpdate Update info ecm this0) = Inr (this1, ecm1)"
    and "\<not> useForceCommands this0"
  shows "components ecm1 JointForceCmd = components ecm JointForceCmd"
  using assms
  by (cases "jointEntity this0 = kNullEntity";
      auto simp add: PreUpdate_resolved PreUpdate_unresolved CreateComponent_def SetData_def
        split: if_splits option.splits list.splits)

lemma PreUpdate_force_mode_frame:
  assumes "snd (PreUpdate Update info ecm this0) = Inr (this1, ecm1)"
    and "useForceCommands this0"
  shows "components ecm1 JointVelocityCmd = components ecm JointVelocityCmd"
  using assms
  by (cases "jointEntity this0 = kNullEntity";
      auto simp add: PreUpdate_resolved PreUpdate_unresolved CreateComponent_def SetData_def
        split: if_splits option.splits list.splits)

text \<open>
  An invariant of the private data that every step and every command message keeps holds
  at the end of a run, and what the steps guarantee of their two stores holds of every step
  of the run.
\<close>

lemma run_invariant:
  assumes step: "\<And>this info ecm this' ecm'.
      P this \<Longrightarrow> snd (PreUpdate Update info ecm this) = Inr (this', ecm') \<Longrightarrow> P this' \<and> Q ecm ecm'"
    and cmd: "\<And>this msg. P this \<Longrightarrow> P (OnCmdVel msg this)"
  shows "P this0 \<Longrightarrow> run Update this0 evs = Inr (this1, tr) \<Longrightarrow>
         P this1 \<and> (\<forall>(a, b) \<in> set tr. Q a b)"
proof (induction evs arbitrary: this0 this1 tr)
  case Nil
  then show ?case by simp
next
  case (Cons ev evs)
  show ?case
  proof (cases ev)
    case (CmdVel msg)
    then show ?thesis using Cons.IH [OF cmd [OF Cons.prems(1)]] Cons.prems(2) by simp
  next
    case (Step info ecm)
    with Cons.prems(2) obtain this' ecm' tr' where
      s: "snd (PreUpdate Update info ecm this0) = Inr (this', ecm')"
      and r: "run Update this' evs = Inr (this1, tr')" and t: "tr = (ecm, ecm') # tr'"
      by (auto split: sum.splits prod.splits)
    from step [OF Cons.prems(1) s] have p: "P this'" and q: "Q ecm ecm'" by simp_all
    from Cons.IH [OF p r] q t show ?thesis by simp
  qed
qed

subsection \<open>Two runs of the example instances\<close>

lemma example_run_velocity:
  "run PID_Update_ns example_velocity_mode
     [Step example_info (example_ecm velocity_components), CmdVel 9,
      Step example_info (example_ecm all_components)]
   = Inr (example_velocity_mode\<lparr>jointEntity := 2, jointVelCmd := 9\<rparr>,
          [(example_ecm velocity_components,
            CreateComponent (example_ecm velocity_components) 2 JointVelocityCmd [0]),
           (example_ecm all_components,
            SetData (example_ecm all_components) JointVelocityCmd 2 [9, 6])])"
  by (simp add: example_velocity_mode_eq PreUpdate_def Let_def OnCmdVel_def example_info_def
      example_ecm_def kNullEntity_def Model_JointByName_def Component_def
      velocity_components_def all_components_def no_components_def CreateComponent_def)

lemma example_run_force:
  "run PID_Update_ns example_force_mode
     [Step example_info (example_ecm velocity_components), CmdVel 9,
      Step example_info_paused (example_ecm all_components)]
   = Inr (example_force_mode\<lparr>jointEntity := 2, jointVelCmd := 9,
            velPid := (velPid example_force_mode)
              \<lparr>integral := 3 / 1000, previousError := 3, firstUpdate := False\<rparr>\<rparr>,
          [(example_ecm velocity_components,
            CreateComponent (example_ecm velocity_components) 2 JointForceCmd [3003 / 1000]),
           (example_ecm all_components, example_ecm all_components)])"
  by (simp add: example_force_mode_eq PreUpdate_def Let_def OnCmdVel_def example_info_def
      example_info_paused_def example_ecm_def kNullEntity_def Model_JointByName_def
      Component_def velocity_components_def all_components_def no_components_def
      CreateComponent_def PID_Update_ns_def PID_Update_def PID_Init_def clamp_def)

lemma example_update:
  "PID_Update_ns (PID_Init 1 1 0 1 (- 1) 1000 (- 1000) 0) 3 1000000
     = (3003 / 1000, (PID_Init 1 1 0 1 (- 1) 1000 (- 1000) 0)
          \<lparr>integral := 3 / 1000, previousError := 3, firstUpdate := False\<rparr>)"
  by (simp add: PID_Update_ns_def PID_Update_def PID_Init_def clamp_def Let_def)

lemma example_update_negative:
  "PID_Update_ns (PID_Init 1 1 0 1 (- 1) 1000 (- 1000) 0) 3 (- 1000000)
     = (3, (PID_Init 1 1 0 1 (- 1) 1000 (- 1000) 0)
          \<lparr>integral := 0, previousError := 3, firstUpdate := False\<rparr>)"
  by (simp add: PID_Update_ns_def PID_Update_def PID_Init_def clamp_def Let_def)

subsection \<open>The measured velocity is missing\<close>




subsection \<open>Configure\<close>

lemma Configure_keeps_jointVelCmd:
  "initial_velocity sdf = None \<Longrightarrow>
   jointVelCmd (snd (Configure entity sdf ecm this0)) = jointVelCmd this0"
  by (simp add: Configure_def Let_def HasElement_def split: prod.splits)

text \<open>
  C2. When the configuration has no \<^verbatim>\<open>initial_velocity\<close> element, the commanded velocity
  that the steps read is 0: the constructor zeroes it, and \<^verbatim>\<open>Configure\<close> leaves it as it
  is, whether it initialises the instance or fails.
\<close>

theorem initial_velocity_default_zero:
  "initial_velocity sdf = None \<Longrightarrow>
   jointVelCmd (JointController pid0) = 0 \<and>
   jointVelCmd (snd (Configure entity sdf ecm (JointController pid0))) = 0"
  using Configure_keeps_jointVelCmd [of sdf entity ecm "JointController pid0"]
  by (simp add: JointController_def)

theorem initial_velocity_default_zero_witness:
  "initial_velocity example_sdf = None \<and> jointVelCmd example_velocity_mode = 0"
  using initial_velocity_default_zero [of example_sdf example_pid0 1 "example_ecm no_components"]
  by (simp add: example_sdf_def example_velocity_mode_def)

subsection \<open>Paused steps\<close>

lemma PreUpdate_when_paused:
  "paused info \<Longrightarrow>
   snd (PreUpdate Update info ecm this0) =
     Inr (if jointEntity this0 = kNullEntity
          then this0\<lparr>jointEntity := Model_JointByName ecm (model this0) (jointName this0)\<rparr>
          else this0, ecm)"
  by (simp add: PreUpdate_def Let_def)

text \<open>
  C3. A step with the pause flag set returns with the store exactly as it was given, so no
  component is created or modified, and with the PID controller and the commanded velocity
  unchanged; once the joint is identified, the whole private data is unchanged.
\<close>

theorem PreUpdate_paused_no_op:
  "paused info \<Longrightarrow>
   (\<exists>this1. snd (PreUpdate Update info ecm this0) = Inr (this1, ecm)
      \<and> velPid this1 = velPid this0 \<and> jointVelCmd this1 = jointVelCmd this0
      \<and> (jointEntity this0 \<noteq> kNullEntity \<longrightarrow> this1 = this0))"
  by (simp add: PreUpdate_when_paused)

theorem PreUpdate_paused_no_op_witness:
  "paused example_info_paused
   \<and> jointEntity (example_force_mode\<lparr>jointEntity := 2\<rparr>) \<noteq> kNullEntity
   \<and> snd (PreUpdate PID_Update_ns example_info_paused (example_ecm all_components)
          (example_force_mode\<lparr>jointEntity := 2\<rparr>))
     = Inr (example_force_mode\<lparr>jointEntity := 2\<rparr>, example_ecm all_components)"
  using PreUpdate_paused_no_op [of example_info_paused PID_Update_ns "example_ecm all_components"
      "example_force_mode\<lparr>jointEntity := 2\<rparr>"]
  by (simp add: example_info_paused_def kNullEntity_def)

subsection \<open>The two modes\<close>

text \<open>
  C4. In any run of steps and command messages, whatever stores the steps are given, an
  instance in velocity mode leaves the force-command components of every step's store as it
  found them, and an instance in force mode leaves the velocity-command components of every
  step's store as it found them.
\<close>

theorem run_mode_exclusive:
  assumes "run Update this0 evs = Inr (this1, tr)"
  shows "(\<not> useForceCommands this0 \<longrightarrow>
            (\<forall>(a, b) \<in> set tr. components b JointForceCmd = components a JointForceCmd))
       \<and> (useForceCommands this0 \<longrightarrow>
            (\<forall>(a, b) \<in> set tr. components b JointVelocityCmd = components a JointVelocityCmd))"
proof (intro conjI impI)
  assume m: "\<not> useForceCommands this0"
  show "\<forall>(a, b) \<in> set tr. components b JointForceCmd = components a JointForceCmd"
    using run_invariant [where P = "\<lambda>t. \<not> useForceCommands t"
        and Q = "\<lambda>a b. components b JointForceCmd = components a JointForceCmd", OF _ _ m assms]
    by (simp add: PreUpdate_keeps(1) PreUpdate_velocity_mode_frame OnCmdVel_def)
next
  assume m: "useForceCommands this0"
  show "\<forall>(a, b) \<in> set tr. components b JointVelocityCmd = components a JointVelocityCmd"
    using run_invariant [where P = "\<lambda>t. useForceCommands t"
        and Q = "\<lambda>a b. components b JointVelocityCmd = components a JointVelocityCmd", OF _ _ m assms]
    by (simp add: PreUpdate_keeps(1) PreUpdate_force_mode_frame OnCmdVel_def)
qed

theorem run_mode_exclusive_witness:
  "\<not> useForceCommands example_velocity_mode
   \<and> run PID_Update_ns example_velocity_mode
        [Step example_info (example_ecm velocity_components), CmdVel 9,
         Step example_info (example_ecm all_components)]
      = Inr (example_velocity_mode\<lparr>jointEntity := 2, jointVelCmd := 9\<rparr>,
          [(example_ecm velocity_components,
            CreateComponent (example_ecm velocity_components) 2 JointVelocityCmd [0]),
           (example_ecm all_components,
            SetData (example_ecm all_components) JointVelocityCmd 2 [9, 6])])
   \<and> components (CreateComponent (example_ecm velocity_components) 2 JointVelocityCmd [0])
         JointForceCmd
       = components (example_ecm velocity_components) JointForceCmd
   \<and> components (SetData (example_ecm all_components) JointVelocityCmd 2 [9, 6]) JointForceCmd
       = components (example_ecm all_components) JointForceCmd
   \<and> useForceCommands example_force_mode
   \<and> run PID_Update_ns example_force_mode
        [Step example_info (example_ecm velocity_components), CmdVel 9,
         Step example_info_paused (example_ecm all_components)]
      = Inr (example_force_mode\<lparr>jointEntity := 2, jointVelCmd := 9,
            velPid := (velPid example_force_mode)
              \<lparr>integral := 3 / 1000, previousError := 3, firstUpdate := False\<rparr>\<rparr>,
          [(example_ecm velocity_components,
            CreateComponent (example_ecm velocity_components) 2 JointForceCmd [3003 / 1000]),
           (example_ecm all_components, example_ecm all_components)])
   \<and> components (CreateComponent (example_ecm velocity_components) 2 JointForceCmd [3003 / 1000])
         JointVelocityCmd
       = components (example_ecm velocity_components) JointVelocityCmd"
proof -
  have m: "\<not> useForceCommands example_velocity_mode" "useForceCommands example_force_mode"
    by (simp_all add: example_velocity_mode_eq example_force_mode_eq)
  show ?thesis
    using run_mode_exclusive [OF example_run_velocity] run_mode_exclusive [OF example_run_force] m
      example_run_velocity example_run_force
    by simp
qed

text \<open>
  C5, as amended. On a step in force mode that reaches the computation of the command (the
  joint is identified, before the step or by it, and the pause flag is clear) and finds a
  measured velocity with a first element, the PID controller is updated with the error
  \<open>first element of the measured velocity - commanded velocity\<close> and the \<open>dt\<close> of the
  step, and the force it returns goes to the force command of the joint: a component
  holding that force alone is created when there is none, and the first element of the
  component is overwritten with it when the component is there with a first element.
\<close>

theorem PreUpdate_force_mode_writes_pid_output:
  assumes "e = (if jointEntity this0 = kNullEntity
                then Model_JointByName ecm (model this0) (jointName this0)
                else jointEntity this0)"
    and "e \<noteq> kNullEntity" and "\<not> paused info" and "useForceCommands this0"
    and "Component ecm JointVelocity e = Some (v0 # vs)"
    and "Update (velPid this0) (v0 - jointVelCmd this0) (dt info) = (force, pid)"
  shows "(Component ecm JointForceCmd e = None \<longrightarrow>
            snd (PreUpdate Update info ecm this0) =
              Inr (this0\<lparr>jointEntity := e, velPid := pid\<rparr>,
                   CreateComponent ecm e JointForceCmd [force])
            \<and> (HasEntity ecm e \<longrightarrow>
                 Component (CreateComponent ecm e JointForceCmd [force]) JointForceCmd e
                   = Some [force]))
       \<and> (\<forall>f0 fs. Component ecm JointForceCmd e = Some (f0 # fs) \<longrightarrow>
            snd (PreUpdate Update info ecm this0) =
              Inr (this0\<lparr>jointEntity := e, velPid := pid\<rparr>,
                   SetData ecm JointForceCmd e (force # fs))
            \<and> Component (SetData ecm JointForceCmd e (force # fs)) JointForceCmd e
                 = Some (force # fs))"
proof -
  let ?t = "this0\<lparr>jointEntity := e\<rparr>"
  have s: "snd (PreUpdate Update info ecm this0) = snd (PreUpdate Update info ecm ?t)"
    using PreUpdate_identify [of Update info ecm this0] assms(1) by simp
  have r: "jointEntity ?t \<noteq> kNullEntity" using assms(2) by simp
  show ?thesis
    unfolding s using assms(3-6)
    by (simp add: PreUpdate_resolved [OF r] CreateComponent_def SetData_def Component_def)
qed

theorem PreUpdate_force_mode_writes_pid_output_witness:
  "Model_JointByName (example_ecm all_components) 1 ''elbow'' = 2 \<and> (2 :: Entity) \<noteq> kNullEntity
   \<and> \<not> paused example_info \<and> useForceCommands example_force_mode
   \<and> Component (example_ecm all_components) JointVelocity 2 = Some [3, 4]
   \<and> PID_Update_ns (velPid example_force_mode) (3 - 0) (dt example_info)
        = (3003 / 1000, (velPid example_force_mode)
             \<lparr>integral := 3 / 1000, previousError := 3, firstUpdate := False\<rparr>)
   \<and> Component (example_ecm all_components) JointForceCmd 2 = Some [7, 8]
   \<and> snd (PreUpdate PID_Update_ns example_info (example_ecm all_components) example_force_mode)
       = Inr (example_force_mode\<lparr>jointEntity := 2,
                velPid := (velPid example_force_mode)
                  \<lparr>integral := 3 / 1000, previousError := 3, firstUpdate := False\<rparr>\<rparr>,
              SetData (example_ecm all_components) JointForceCmd 2 [3003 / 1000, 8])"
  using PreUpdate_force_mode_writes_pid_output [of 2 example_force_mode
      "example_ecm all_components" example_info 3 "[4]" PID_Update_ns "3003 / 1000"
      "(velPid example_force_mode)\<lparr>integral := 3 / 1000, previousError := 3, firstUpdate := False\<rparr>"]
    example_update
  by (simp add: example_force_mode_eq example_info_def kNullEntity_def Component_def
      example_ecm_def all_components_def no_components_def Model_JointByName_def Let_def)

text \<open>
  The first two steps of the force-mode example on a store that knows the joint and holds
  no component for it, with nothing filling the measured velocity in between: the first
  step creates the measured velocity with an empty vector and returns; the second passes
  the pause test and the test of the measured velocity, reads the first element of the
  empty vector and ends with \<^verbatim>\<open>std::out_of_range\<close>: the PID controller is not updated
  and no force is written. And a step of the same instance on a store where the joint has a
  measured velocity and a force command with an empty vector: \<^verbatim>\<open>Data()[0]\<close> has no
  element to overwrite.
\<close>

theorem PreUpdate_force_mode_empty_velocity_throws:
  "useForceCommands example_force_mode \<and> \<not> paused example_info
   \<and> snd (PreUpdate PID_Update_ns example_info (example_ecm no_components) example_force_mode)
       = Inr (example_force_mode\<lparr>jointEntity := 2\<rparr>,
              CreateComponent (example_ecm no_components) 2 JointVelocity [])
   \<and> Component (CreateComponent (example_ecm no_components) 2 JointVelocity []) JointVelocity 2
       = Some []
   \<and> snd (PreUpdate PID_Update_ns example_info
            (CreateComponent (example_ecm no_components) 2 JointVelocity [])
            (example_force_mode\<lparr>jointEntity := 2\<rparr>))
       = Inl out_of_range
   \<and> Component (SetData (example_ecm velocity_components) JointForceCmd 2 []) JointVelocity 2
       = Some [3, 4]
   \<and> Component (SetData (example_ecm velocity_components) JointForceCmd 2 []) JointForceCmd 2
       = Some []
   \<and> snd (PreUpdate PID_Update_ns example_info
            (SetData (example_ecm velocity_components) JointForceCmd 2 [])
            (example_force_mode\<lparr>jointEntity := 2\<rparr>))
       = Inl undefined_index"
  by (simp add: example_force_mode_eq PreUpdate_def Let_def Model_JointByName_def
      example_info_def kNullEntity_def Component_def example_ecm_def no_components_def
      velocity_components_def CreateComponent_def SetData_def PID_Update_ns_def PID_Update_def
      PID_Init_def)

subsection \<open>A failed initialisation\<close>

lemma Configure_fails:
  assumes "\<not> Model_Valid ecm entity \<or> Get (joint_name sdf) [] = []"
  shows "Configure entity sdf ecm this0 =
           ([ignerr], this0\<lparr>model := entity,
              jointName := (if Model_Valid ecm entity then [] else jointName this0)\<rparr>)"
  using assms by (auto simp add: Configure_def Let_def)

lemma run_inert:
  assumes "jointEntity this0 = kNullEntity" and "jointName this0 = []"
    and "\<forall>ev \<in> set evs. no_unnamed_joint (model this0) ev"
  shows "\<exists>this1. run Update this0 evs = Inr (this1, map (\<lambda>ecm. (ecm, ecm)) (step_stores evs))
           \<and> jointEntity this1 = kNullEntity \<and> velPid this1 = velPid this0"
  using assms
proof (induction evs arbitrary: this0)
  case Nil
  then show ?case by simp
next
  case (Cons ev evs)
  show ?case
  proof (cases ev)
    case (CmdVel msg)
    then show ?thesis using Cons.IH [of "OnCmdVel msg this0"] Cons.prems
      by (simp add: OnCmdVel_def)
  next
    case (Step info ecm)
    then have "Model_JointByName ecm (model this0) (jointName this0) = kNullEntity"
      using Cons.prems by simp
    then have s: "snd (PreUpdate Update info ecm this0) = Inr (this0, ecm)"
      using Cons.prems(1) by (simp add: PreUpdate_unresolved)
    show ?thesis using Cons.IH [of this0] Cons.prems Step s by auto
  qed
qed

text \<open>
  C6, as amended. If at configuration time the model is not valid or the configured joint
  name is empty, \<^verbatim>\<open>Configure\<close> writes an error and returns before it subscribes, and the
  instance is inert for as long as the store finds no joint with an empty name under the
  model: in any run in which every step's store finds none, no step throws, every step
  leaves its store exactly as it was given, the joint stays unidentified and the PID
  controller stays as constructed.
\<close>

theorem failed_Configure_inert_without_unnamed_joint:
  assumes "\<not> Model_Valid ecm0 entity \<or> Get (joint_name sdf) [] = []"
    and "\<forall>ev \<in> set evs. no_unnamed_joint entity ev"
  shows "fst (Configure entity sdf ecm0 (JointController pid0)) = [ignerr]
       \<and> node (snd (Configure entity sdf ecm0 (JointController pid0))) = None
       \<and> (\<exists>this1. run Update (snd (Configure entity sdf ecm0 (JointController pid0))) evs
                     = Inr (this1, map (\<lambda>ecm. (ecm, ecm)) (step_stores evs))
                  \<and> jointEntity this1 = kNullEntity \<and> velPid this1 = pid0)"
proof -
  let ?cfg = "snd (Configure entity sdf ecm0 (JointController pid0))"
  have c: "Configure entity sdf ecm0 (JointController pid0)
           = ([ignerr], (JointController pid0)\<lparr>model := entity\<rparr>)"
    using Configure_fails [OF assms(1), of "JointController pid0"]
    by (simp add: JointController_def)
  have "\<exists>this1. run Update ?cfg evs = Inr (this1, map (\<lambda>ecm. (ecm, ecm)) (step_stores evs))
           \<and> jointEntity this1 = kNullEntity \<and> velPid this1 = velPid ?cfg"
    unfolding c snd_conv
    by (rule run_inert) (use assms(2) in \<open>simp_all add: JointController_def kNullEntity_def\<close>)
  then show ?thesis unfolding c by (simp add: JointController_def)
qed

theorem failed_Configure_inert_without_unnamed_joint_witness:
  "Get (joint_name example_sdf_unnamed) [] = []
   \<and> no_unnamed_joint 1 (Step example_info (example_ecm velocity_components))
   \<and> no_unnamed_joint 1 (Step example_info (example_ecm all_components))
   \<and> fst (Configure 1 example_sdf_unnamed (example_ecm no_components)
          (JointController example_pid0)) = [ignerr]
   \<and> run PID_Update_ns
        (snd (Configure 1 example_sdf_unnamed (example_ecm no_components)
                (JointController example_pid0)))
        [Step example_info (example_ecm velocity_components),
         Step example_info (example_ecm all_components)]
       = Inr ((JointController example_pid0)\<lparr>model := 1\<rparr>,
          [(example_ecm velocity_components, example_ecm velocity_components),
           (example_ecm all_components, example_ecm all_components)])"
  using failed_Configure_inert_without_unnamed_joint [of "example_ecm no_components" 1
      example_sdf_unnamed
      "[Step example_info (example_ecm velocity_components),
        Step example_info (example_ecm all_components)]" example_pid0 PID_Update_ns]
  by (simp add: example_sdf_unnamed_def example_sdf_def Get_def Model_JointByName_def
      example_ecm_def kNullEntity_def Configure_def Model_Valid_def JointController_def
      PreUpdate_unresolved)

text \<open>
  A configuration without a joint name, on a model that has a joint whose name is empty
  (entity 2, which the store names with the empty string and finds under that name):
  \<^verbatim>\<open>Configure\<close> reports the failure, and the first step, given the store with the
  measured velocity of that joint, identifies the joint and creates its velocity command.
\<close>

theorem failed_Configure_acts_on_unnamed_joint:
  "fst (Configure 1 example_sdf_unnamed (example_ecm_unnamed no_components)
          (JointController example_pid0)) = [ignerr]
   \<and> NameOf (example_ecm_unnamed velocity_components) 2 = []
   \<and> Model_JointByName (example_ecm_unnamed velocity_components) 1 [] = 2
   \<and> Component (example_ecm_unnamed velocity_components) JointVelocityCmd 2 = None
   \<and> snd (PreUpdate PID_Update_ns example_info (example_ecm_unnamed velocity_components)
            example_unnamed)
       = Inr (example_unnamed\<lparr>jointEntity := 2\<rparr>,
              CreateComponent (example_ecm_unnamed velocity_components) 2 JointVelocityCmd [0])
   \<and> Component (CreateComponent (example_ecm_unnamed velocity_components) 2 JointVelocityCmd [0])
        JointVelocityCmd 2 = Some [0]"
  by (simp add: example_unnamed_eq PreUpdate_def Let_def Configure_def example_sdf_unnamed_def
      example_sdf_def Get_def Model_Valid_def JointController_def example_ecm_unnamed_def
      example_ecm_def kNullEntity_def Model_JointByName_def example_info_def Component_def
      velocity_components_def no_components_def CreateComponent_def)

subsection \<open>The integral accumulator of the PID controller\<close>











subsection \<open>The identified joint\<close>

text \<open>
  C8. Once the joint is identified (\<^verbatim>\<open>jointEntity\<close> is not \<^verbatim>\<open>kNullEntity\<close>), it is the same
  at the end of every run of steps and command messages, whatever the stores of the steps
  would answer to a lookup; and no step looks the joint up again: a step gives the same
  result whatever the store's table of joints is.
\<close>

theorem resolved_joint_never_changes:
  assumes "jointEntity this0 \<noteq> kNullEntity"
  shows "(\<forall>evs this1 tr. run Update this0 evs = Inr (this1, tr) \<longrightarrow>
            jointEntity this1 = jointEntity this0)
       \<and> (\<forall>info ecm lookup.
            snd (PreUpdate Update info (ecm\<lparr>JointOf := lookup\<rparr>) this0)
            = map_sum id (apsnd (\<lambda>s. s\<lparr>JointOf := lookup\<rparr>))
                (snd (PreUpdate Update info ecm this0)))"
proof (intro conjI allI impI)
  fix evs this1 tr
  assume r: "run Update this0 evs = Inr (this1, tr)"
  show "jointEntity this1 = jointEntity this0"
    using run_invariant [where P = "\<lambda>t. jointEntity t = jointEntity this0"
        and Q = "\<lambda>a b. True", OF _ _ refl r] assms
    by (simp add: PreUpdate_keeps(5) OnCmdVel_def)
next
  fix info ecm lookup
  show "snd (PreUpdate Update info (ecm\<lparr>JointOf := lookup\<rparr>) this0)
        = map_sum id (apsnd (\<lambda>s. s\<lparr>JointOf := lookup\<rparr>)) (snd (PreUpdate Update info ecm this0))"
    using assms
    by (simp add: PreUpdate_resolved Component_def CreateComponent_def SetData_def
        split: option.splits list.splits)
qed

theorem resolved_joint_never_changes_witness:
  "jointEntity (example_velocity_mode\<lparr>jointEntity := 2\<rparr>) \<noteq> kNullEntity
   \<and> Model_JointByName (example_ecm_unnamed velocity_components) 1 ''elbow'' = kNullEntity
   \<and> run PID_Update_ns (example_velocity_mode\<lparr>jointEntity := 2\<rparr>)
        [Step example_info (example_ecm_unnamed velocity_components), CmdVel 9,
         Step example_info (example_ecm_unnamed all_components)]
      = Inr (example_velocity_mode\<lparr>jointEntity := 2, jointVelCmd := 9\<rparr>,
          [(example_ecm_unnamed velocity_components,
            CreateComponent (example_ecm_unnamed velocity_components) 2 JointVelocityCmd [0]),
           (example_ecm_unnamed all_components,
            SetData (example_ecm_unnamed all_components) JointVelocityCmd 2 [9, 6])])
   \<and> jointEntity (example_velocity_mode\<lparr>jointEntity := 2, jointVelCmd := 9\<rparr>) = 2"
  using resolved_joint_never_changes [of "example_velocity_mode\<lparr>jointEntity := 2\<rparr>" PID_Update_ns]
  by (simp add: example_velocity_mode_eq PreUpdate_def Let_def OnCmdVel_def example_info_def
      example_ecm_def example_ecm_unnamed_def kNullEntity_def Model_JointByName_def Component_def
      velocity_components_def all_components_def no_components_def CreateComponent_def)

subsection \<open>A jump back in time\<close>

text \<open>
  C9. A step with a negative \<open>dt\<close> writes one warning and then does what any other step
  does: its outcome (the error, or the private data and the store) is the outcome of the
  same step with any other \<open>dt\<close>, negative or not, whose PID controller is handed the
  negative \<open>dt\<close>. So the sign of \<open>dt\<close> takes no return of its own, and \<open>dt\<close> reaches
  nothing but the warning and the update of the PID controller. Nothing is reset: the
  commanded velocity, the mode, the model, the joint name and the subscription are as
  before, an identified joint is as before, and the PID controller is as before or as one
  update with the \<open>dt\<close> of the step leaves it.
\<close>

theorem PreUpdate_negative_dt_warns_and_continues:
  "dt info < 0 \<Longrightarrow>
   fst (PreUpdate Update info ecm this0) = [ignwarn]
   \<and> (\<forall>dt'. snd (PreUpdate Update info ecm this0)
         = snd (PreUpdate (\<lambda>pid err d. Update pid err (dt info)) (info\<lparr>dt := dt'\<rparr>) ecm this0))
   \<and> (\<forall>this1 ecm1. snd (PreUpdate Update info ecm this0) = Inr (this1, ecm1) \<longrightarrow>
         jointVelCmd this1 = jointVelCmd this0 \<and> useForceCommands this1 = useForceCommands this0
         \<and> model this1 = model this0 \<and> jointName this1 = jointName this0
         \<and> node this1 = node this0
         \<and> (jointEntity this0 \<noteq> kNullEntity \<longrightarrow> jointEntity this1 = jointEntity this0)
         \<and> (velPid this1 = velPid this0
              \<or> (\<exists>err. velPid this1 = snd (Update (velPid this0) err (dt info)))))"
proof (intro conjI allI impI)
  assume "dt info < 0"
  then show "fst (PreUpdate Update info ecm this0) = [ignwarn]" by (simp add: PreUpdate_log)
next
  fix dt'
  show "snd (PreUpdate Update info ecm this0)
        = snd (PreUpdate (\<lambda>pid err d. Update pid err (dt info)) (info\<lparr>dt := dt'\<rparr>) ecm this0)"
    by (simp add: PreUpdate_def Let_def)
next
  fix this1 ecm1
  assume r: "snd (PreUpdate Update info ecm this0) = Inr (this1, ecm1)"
  show "jointVelCmd this1 = jointVelCmd this0" "useForceCommands this1 = useForceCommands this0"
    "model this1 = model this0" "jointName this1 = jointName this0"
    using PreUpdate_keeps [OF r] by simp_all
  show "jointEntity this1 = jointEntity this0" if "jointEntity this0 \<noteq> kNullEntity"
    using PreUpdate_keeps(5) [OF r that] .
  show "node this1 = node this0"
    using r by (cases "jointEntity this0 = kNullEntity";
      auto simp add: PreUpdate_resolved PreUpdate_unresolved
        split: if_splits option.splits list.splits)
  show "velPid this1 = velPid this0
        \<or> (\<exists>err. velPid this1 = snd (Update (velPid this0) err (dt info)))"
    using r by (cases "jointEntity this0 = kNullEntity";
      auto simp add: PreUpdate_resolved PreUpdate_unresolved
        split: if_splits option.splits list.splits)
qed

theorem PreUpdate_negative_dt_warns_and_continues_witness:
  "dt (example_info\<lparr>dt := - 1000000\<rparr>) < 0
   \<and> PreUpdate PID_Update_ns (example_info\<lparr>dt := - 1000000\<rparr>) (example_ecm all_components)
        example_force_mode
      = ([ignwarn], Inr (example_force_mode\<lparr>jointEntity := 2,
                velPid := (velPid example_force_mode)
                  \<lparr>integral := 0, previousError := 3, firstUpdate := False\<rparr>\<rparr>,
           SetData (example_ecm all_components) JointForceCmd 2 [3, 8]))
   \<and> snd (PreUpdate (\<lambda>pid err d. PID_Update_ns pid err (- 1000000)) example_info
             (example_ecm all_components) example_force_mode)
      = Inr (example_force_mode\<lparr>jointEntity := 2,
                velPid := (velPid example_force_mode)
                  \<lparr>integral := 0, previousError := 3, firstUpdate := False\<rparr>\<rparr>,
           SetData (example_ecm all_components) JointForceCmd 2 [3, 8])"
  using PreUpdate_negative_dt_warns_and_continues [of "example_info\<lparr>dt := - 1000000\<rparr>"
      PID_Update_ns "example_ecm all_components" example_force_mode] example_update_negative
  by (simp add: example_force_mode_eq example_info_def kNullEntity_def Component_def
      example_ecm_def all_components_def no_components_def PreUpdate_def Model_JointByName_def
      Let_def)

subsection \<open>The first axis\<close>

lemma first_axis_Component:
  "Component (first_axis ecm) T e = map_option (take 1) (Component ecm T e)"
  by (simp add: first_axis_def Component_def)

lemma first_axis_JointByName:
  "Model_JointByName (first_axis ecm) m name = Model_JointByName ecm m name"
  by (simp add: first_axis_def Model_JointByName_def)

lemma first_axis_idem: "first_axis (first_axis ecm) = first_axis ecm"
  by (simp add: first_axis_def option.map_comp comp_def)

lemma first_axis_SetData:
  "first_axis (SetData ecm T e d) = SetData (first_axis ecm) T e (take 1 d)"
  by (simp add: first_axis_def SetData_def fun_eq_iff)

lemma first_axis_CreateComponent:
  "first_axis (CreateComponent ecm e T d) = CreateComponent (first_axis ecm) e T (take 1 d)"
  by (simp add: first_axis_def CreateComponent_def fun_eq_iff)

lemmas first_axis_simps = first_axis_Component first_axis_JointByName first_axis_idem
  first_axis_SetData first_axis_CreateComponent

text \<open>
  The first axis of the outcome of a step is the first axis of its outcome on the first
  axis of the store: nothing after the first element of a vector reaches the step.
\<close>

lemma PreUpdate_first_axis_resolved:
  assumes "jointEntity this0 \<noteq> kNullEntity"
  shows "map_sum id (apsnd first_axis) (snd (PreUpdate Update info ecm this0))
       = map_sum id (apsnd first_axis) (snd (PreUpdate Update info (first_axis ecm) this0))"
proof (cases "Component ecm JointVelocity (jointEntity this0)")
  case None
  then show ?thesis using assms by (simp add: PreUpdate_resolved first_axis_simps)
next
  case (Some vel)
  show ?thesis
  proof (cases "useForceCommands this0")
    case False
    show ?thesis
    proof (cases "Component ecm JointVelocityCmd (jointEntity this0)")
      case None
      then show ?thesis using assms Some False by (simp add: PreUpdate_resolved first_axis_simps)
    next
      case (Some cmd)
      then show ?thesis
        using assms \<open>Component ecm JointVelocity (jointEntity this0) = Some vel\<close> False
        by (cases cmd) (simp_all add: PreUpdate_resolved first_axis_simps)
    qed
  next
    case True
    show ?thesis
    proof (cases vel)
      case Nil
      then show ?thesis using assms Some True by (simp add: PreUpdate_resolved first_axis_simps)
    next
      case (Cons v0 vs)
      show ?thesis
      proof (cases "Component ecm JointForceCmd (jointEntity this0)")
        case None
        then show ?thesis using assms Some True Cons
          by (simp add: PreUpdate_resolved first_axis_simps)
      next
        case (Some cmd)
        then show ?thesis
          using assms \<open>Component ecm JointVelocity (jointEntity this0) = Some vel\<close> True Cons
          by (cases cmd) (simp_all add: PreUpdate_resolved first_axis_simps)
      qed
    qed
  qed
qed

lemma PreUpdate_first_axis:
  "map_sum id (apsnd first_axis) (snd (PreUpdate Update info ecm this0))
   = map_sum id (apsnd first_axis) (snd (PreUpdate Update info (first_axis ecm) this0))"
proof (cases "jointEntity this0 = kNullEntity")
  case False
  then show ?thesis by (rule PreUpdate_first_axis_resolved)
next
  case True
  show ?thesis
  proof (cases "Model_JointByName ecm (model this0) (jointName this0) = kNullEntity")
    case True
    with \<open>jointEntity this0 = kNullEntity\<close> show ?thesis
      by (simp add: PreUpdate_unresolved first_axis_JointByName first_axis_idem)
  next
    case False
    then have r: "jointEntity (this0\<lparr>jointEntity :=
        Model_JointByName ecm (model this0) (jointName this0)\<rparr>) \<noteq> kNullEntity"
      by simp
    show ?thesis
      using False \<open>jointEntity this0 = kNullEntity\<close> PreUpdate_first_axis_resolved [OF r]
      by (simp add: PreUpdate_unresolved first_axis_JointByName)
  qed
qed

lemma PreUpdate_no_out_of_range:
  assumes "jointEntity this0 \<noteq> kNullEntity"
    and "Component ecm JointVelocity (jointEntity this0) = Some (v0 # vs)"
  shows "snd (PreUpdate Update info ecm this0) \<noteq> Inl out_of_range"
  using assms by (simp add: PreUpdate_resolved split: option.splits list.splits)

text \<open>
  A step changes a component in its first element, or makes one of at most one element.
\<close>

lemma PreUpdate_changes_first_axis:
  assumes "snd (PreUpdate Update info ecm this0) = Inr (this1, ecm1)"
  shows "components ecm T e = Some xs \<Longrightarrow>
           components ecm1 T e = Some xs
           \<or> (\<exists>x x0 rest. xs = x0 # rest \<and> components ecm1 T e = Some (x # rest))"
    and "components ecm T e = None \<Longrightarrow>
           components ecm1 T e = None \<or> components ecm1 T e = Some []
           \<or> (\<exists>x. components ecm1 T e = Some [x])"
  using assms
  by (cases "jointEntity this0 = kNullEntity";
      auto simp add: PreUpdate_resolved PreUpdate_unresolved CreateComponent_def SetData_def
        Component_def split: if_splits option.splits list.splits)+

text \<open>
  C10. On a step that identifies the joint, before it or by its lookup, and finds a
  measured velocity with a first element, \<^verbatim>\<open>at(0)\<close> is in range, so the step does not end
  with \<^verbatim>\<open>std::out_of_range\<close>. Every step reads nothing of the three component vectors
  beyond their first elements: cut every vector of the store down to its first element,
  and the step ends with the same error, or with the same private data and a store with
  the same first elements. And every step writes nothing but a first element: every
  component of the store, of any of the three types and of any entity, is as before, or as
  before but for its first element, or new with at most one element.
\<close>

theorem PreUpdate_first_axis_only:
  "(\<forall>e v0 vs.
      e = (if jointEntity this0 = kNullEntity
           then Model_JointByName ecm (model this0) (jointName this0) else jointEntity this0)
      \<and> e \<noteq> kNullEntity \<and> Component ecm JointVelocity e = Some (v0 # vs)
      \<longrightarrow> snd (PreUpdate Update info ecm this0) \<noteq> Inl out_of_range)
   \<and> map_sum id (apsnd first_axis) (snd (PreUpdate Update info ecm this0))
       = map_sum id (apsnd first_axis) (snd (PreUpdate Update info (first_axis ecm) this0))
   \<and> (\<forall>this1 ecm1. snd (PreUpdate Update info ecm this0) = Inr (this1, ecm1) \<longrightarrow>
         (\<forall>T e. case components ecm T e of
                   None \<Rightarrow> components ecm1 T e = None \<or> components ecm1 T e = Some []
                            \<or> (\<exists>x. components ecm1 T e = Some [x])
                 | Some xs \<Rightarrow> components ecm1 T e = Some xs
                     \<or> (\<exists>x x0 rest. xs = x0 # rest \<and> components ecm1 T e = Some (x # rest))))"
proof (intro conjI allI impI)
  fix e v0 vs
  assume h: "e = (if jointEntity this0 = kNullEntity
                  then Model_JointByName ecm (model this0) (jointName this0) else jointEntity this0)
             \<and> e \<noteq> kNullEntity \<and> Component ecm JointVelocity e = Some (v0 # vs)"
  let ?t = "this0\<lparr>jointEntity := e\<rparr>"
  have s: "snd (PreUpdate Update info ecm this0) = snd (PreUpdate Update info ecm ?t)"
    using PreUpdate_identify [of Update info ecm this0] h by simp
  have r: "jointEntity ?t \<noteq> kNullEntity"
    and v: "Component ecm JointVelocity (jointEntity ?t) = Some (v0 # vs)"
    using h by (auto split: if_splits)
  show "snd (PreUpdate Update info ecm this0) \<noteq> Inl out_of_range"
    unfolding s using PreUpdate_no_out_of_range [OF r v] .
next
  show "map_sum id (apsnd first_axis) (snd (PreUpdate Update info ecm this0))
        = map_sum id (apsnd first_axis) (snd (PreUpdate Update info (first_axis ecm) this0))"
    by (rule PreUpdate_first_axis)
next
  fix this1 ecm1 T e
  assume r: "snd (PreUpdate Update info ecm this0) = Inr (this1, ecm1)"
  show "case components ecm T e of
          None \<Rightarrow> components ecm1 T e = None \<or> components ecm1 T e = Some []
                   \<or> (\<exists>x. components ecm1 T e = Some [x])
        | Some xs \<Rightarrow> components ecm1 T e = Some xs
            \<or> (\<exists>x x0 rest. xs = x0 # rest \<and> components ecm1 T e = Some (x # rest))"
    using PreUpdate_changes_first_axis [OF r, of T e] by (simp split: option.splits)
qed

theorem PreUpdate_first_axis_only_witness:
  "Model_JointByName (example_ecm all_components) 1 ''elbow'' = 2 \<and> (2 :: Entity) \<noteq> kNullEntity
   \<and> Component (example_ecm all_components) JointVelocity 2 = Some [3, 4]
   \<and> snd (PreUpdate PID_Update_ns example_info (example_ecm all_components) example_force_mode)
       = Inr (example_force_mode\<lparr>jointEntity := 2,
                velPid := (velPid example_force_mode)
                  \<lparr>integral := 3 / 1000, previousError := 3, firstUpdate := False\<rparr>\<rparr>,
              SetData (example_ecm all_components) JointForceCmd 2 [3003 / 1000, 8])
   \<and> snd (PreUpdate PID_Update_ns example_info (first_axis (example_ecm all_components))
            example_force_mode)
       = Inr (example_force_mode\<lparr>jointEntity := 2,
                velPid := (velPid example_force_mode)
                  \<lparr>integral := 3 / 1000, previousError := 3, firstUpdate := False\<rparr>\<rparr>,
              SetData (first_axis (example_ecm all_components)) JointForceCmd 2 [3003 / 1000])
   \<and> components (SetData (example_ecm all_components) JointForceCmd 2 [3003 / 1000, 8])
        JointForceCmd 2 = Some [3003 / 1000, 8]
   \<and> components (example_ecm all_components) JointForceCmd 2 = Some [7, 8]"
  using PreUpdate_first_axis_only [of example_force_mode "example_ecm all_components"
      PID_Update_ns example_info] example_update
  by (simp add: example_force_mode_eq example_info_def kNullEntity_def Component_def
      example_ecm_def all_components_def no_components_def PreUpdate_def Model_JointByName_def
      Let_def first_axis_def SetData_def)

end
